theory Spec2Isabelle
  imports Main
begin

section \<open>Values that cross the JavaScript boundary\<close>

text \<open>
  What a JavaScript \<^verbatim>\<open>throw\<close> (or a rejected promise) carries: a \<^verbatim>\<open>TypeError\<close> of the
  language or of the SQLite binding, an error of the Stripe SDK, a constraint error of SQLite.
\<close>

datatype error = TypeError | StripeError | SqliteError

datatype json = JNull | JBool bool | JStr string | JNum int

text \<open>
  \<^verbatim>\<open>res.json(body)\<close> answers with status 200 and the body as a JSON object (its keys in
  order); \<^verbatim>\<open>res.status(c).send(text)\<close> answers with status \<open>c\<close> and a text. \<open>Unhandled\<close> is
  the fault of an \<^verbatim>\<open>async\<close> handler whose promise rejects with nothing to catch it: no
  response is written.
\<close>

datatype response =
    Json nat "(string \<times> json) list"
  | Send nat string
  | Unhandled error

text \<open>
  JavaScript truthiness of a value that is a string, \<^verbatim>\<open>null\<close> or \<^verbatim>\<open>undefined\<close>:
  \<^verbatim>\<open>!v\<close> holds for \<^verbatim>\<open>undefined\<close>, \<^verbatim>\<open>null\<close> and the empty string.
\<close>

definition truthy :: "string option \<Rightarrow> bool" where
  "truthy v = (case v of None \<Rightarrow> False | Some s \<Rightarrow> s \<noteq> [])"

section \<open>The objects of the payment processor\<close>

text \<open>
  The shapes are those of the processor's protocol. \<open>metadata\<close> is an object of string
  values or \<^verbatim>\<open>null\<close>. A subscription's \<open>status\<close> and \<open>customer\<close> are strings, its
  \<open>trial_end\<close> is a number of seconds or \<^verbatim>\<open>null\<close>. \<open>sub_interval\<close> is what
  \<^verbatim>\<open>sub.items.data[0].price.recurring.interval\<close> evaluates to, \<open>None\<close> when a link of that
  chain is missing, so that the access throws a \<^verbatim>\<open>TypeError\<close>. A checkout session's
  \<open>subscription\<close> and \<open>customer\<close> are identifiers or \<^verbatim>\<open>null\<close>, and so is an invoice's
  \<open>subscription\<close>.
\<close>

type_synonym metadata = "(string \<rightharpoonup> string) option"

record subscription =
  sub_metadata :: metadata
  sub_status :: string
  sub_trial_end :: "int option"
  sub_customer :: string
  sub_interval :: "string option"

record session =
  ses_metadata :: metadata
  ses_subscription :: "string option"
  ses_customer :: "string option"

record invoice =
  inv_subscription :: "string option"

text \<open>
  A verified event: its \<^verbatim>\<open>type\<close> tag together with the \<^verbatim>\<open>data.object\<close> that the protocol
  sends under that tag. \<open>Other\<close> is every type the handlers have no branch for.
\<close>

datatype event =
    CheckoutSessionCompleted session
  | SubscriptionCreated subscription
  | SubscriptionUpdated subscription
  | InvoicePaymentFailed invoice
  | SubscriptionDeleted subscription
  | Other string

text \<open>\<^verbatim>\<open>x.metadata?.deviceId\<close> and \<^verbatim>\<open>x.metadata?.plan\<close> of \<^verbatim>\<open>server.js\<close>.\<close>

definition optional_chain :: "metadata \<Rightarrow> string \<Rightarrow> string option" where
  "optional_chain m k = (case m of None \<Rightarrow> None | Some kv \<Rightarrow> kv k)"

text \<open>\<^verbatim>\<open>x.metadata.deviceId\<close> of the second source file: reading a property of \<^verbatim>\<open>null\<close> throws.\<close>

definition property :: "metadata \<Rightarrow> string \<Rightarrow> error + string option" where
  "property m k = (case m of None \<Rightarrow> Inl TypeError | Some kv \<Rightarrow> Inr (kv k))"

text \<open>\<^verbatim>\<open>t ? t * 1000 : null\<close>: seconds to milliseconds; \<^verbatim>\<open>null\<close> and \<open>0\<close> are falsy.\<close>

definition expires_ms :: "int option \<Rightarrow> int option" where
  "expires_ms t = (case t of None \<Rightarrow> None | Some n \<Rightarrow> if n = 0 then None else Some (n * 1000))"

text \<open>\<^verbatim>\<open>interval === "year" ? "yearly" : "monthly"\<close>.\<close>

definition plan_of_interval :: "string \<Rightarrow> string" where
  "plan_of_interval i = (if i = ''year'' then ''yearly'' else ''monthly'')"

subsection \<open>The processor's subscriptions\<close>

type_synonym processor = "string \<rightharpoonup> subscription"

text \<open>
  \<^verbatim>\<open>await stripe.subscriptions.retrieve(id)\<close>: rejects when the identifier is missing or names
  no subscription.
\<close>

definition retrieve :: "processor \<Rightarrow> string option \<Rightarrow> error + subscription" where
  "retrieve p i =
     (case i of
        None \<Rightarrow> Inl StripeError
      | Some k \<Rightarrow> (case p k of None \<Rightarrow> Inl StripeError | Some s \<Rightarrow> Inr s))"

text \<open>
  \<^verbatim>\<open>await stripe.subscriptions.update(id, {metadata: {deviceId}})\<close>: the processor merges the
  key into the subscription's metadata; an \<^verbatim>\<open>undefined\<close> value is not sent, an empty one
  unsets the key.
\<close>

definition merge_deviceId :: "metadata \<Rightarrow> string option \<Rightarrow> metadata" where
  "merge_deviceId m d =
     (let kv = (case m of None \<Rightarrow> Map.empty | Some f \<Rightarrow> f) in
      case d of
        None \<Rightarrow> Some kv
      | Some v \<Rightarrow> Some (kv(''deviceId'' := (if v = [] then None else Some v))))"

definition update_metadata :: "processor \<Rightarrow> string option \<Rightarrow> string option \<Rightarrow> error + processor" where
  "update_metadata p i d =
     (case i of
        None \<Rightarrow> Inl StripeError
      | Some k \<Rightarrow>
          (case p k of
             None \<Rightarrow> Inl StripeError
           | Some s \<Rightarrow> Inr (p(k \<mapsto> s\<lparr>sub_metadata := merge_deviceId (sub_metadata s) d\<rparr>))))"

section \<open>The entitlement store (\<^verbatim>\<open>db.js\<close>)\<close>

text \<open>
  One row of the table \<^verbatim>\<open>subscriptions\<close>, keyed by \<^verbatim>\<open>deviceId TEXT PRIMARY KEY\<close>:
  \<^verbatim>\<open>plan TEXT NOT NULL, status TEXT NOT NULL\<close>, and \<^verbatim>\<open>trial INTEGER, expiresAt INTEGER,
  customerId TEXT\<close>, which can hold \<^verbatim>\<open>NULL\<close>.
\<close>

record row =
  plan :: string
  status :: string
  trial :: "int option"
  expiresAt :: "int option"
  customerId :: "string option"

text \<open>
  \<^verbatim>\<open>db.js\<close> declares the column as \<^verbatim>\<open>trial INTEGER NOT NULL\<close>, with no default, and creates
  the table only \<^verbatim>\<open>IF NOT EXISTS\<close>: \<open>trial_not_null\<close> says whether the table in
  \<^verbatim>\<open>subscriptions.db\<close> carries that constraint. It does whenever \<^verbatim>\<open>db.js\<close> created the table.
\<close>

record database =
  trial_not_null :: bool
  rows :: "string \<rightharpoonup> row"

text \<open>
  \<^verbatim>\<open>INSERT INTO subscriptions (deviceId, plan, status, expiresAt, customerId)
  VALUES (?, ?, ?, ?, ?) ON CONFLICT(deviceId) DO UPDATE SET plan=excluded.plan,
  status=excluded.status, [expiresAt=excluded.expiresAt,] customerId=excluded.customerId\<close>,
  run with the five values. \<open>set_expires\<close> says whether the conflict clause lists
  \<open>expiresAt\<close>. Binding \<^verbatim>\<open>undefined\<close> is a \<^verbatim>\<open>TypeError\<close> of the binding. The statement names
  no value for \<open>trial\<close>, so under \<open>trial_not_null\<close> SQLite refuses it, before it looks for a
  conflicting row; otherwise a new row has \<open>trial\<close> \<^verbatim>\<open>NULL\<close> and a conflicting row keeps the
  columns the clause does not list.
\<close>

definition upsert ::
  "bool \<Rightarrow> database \<Rightarrow> string option \<Rightarrow> string option \<Rightarrow> string \<Rightarrow> int option \<Rightarrow> string option
     \<Rightarrow> error + database" where
  "upsert set_expires db deviceId pl st ex cu =
     (case deviceId of
        None \<Rightarrow> Inl TypeError
      | Some d \<Rightarrow>
          (case pl of
             None \<Rightarrow> Inl TypeError
           | Some p \<Rightarrow>
               if trial_not_null db then Inl SqliteError
               else
                 (case rows db d of
                    None \<Rightarrow>
                      Inr (db\<lparr>rows := (rows db)(d \<mapsto>
                        \<lparr>plan = p, status = st, trial = None, expiresAt = ex, customerId = cu\<rparr>)\<rparr>)
                  | Some r \<Rightarrow>
                      Inr (db\<lparr>rows := (rows db)(d \<mapsto>
                        r\<lparr>plan := p, status := st,
                          expiresAt := (if set_expires then ex else expiresAt r),
                          customerId := cu\<rparr>)\<rparr>))))"

text \<open>
  The three \<^verbatim>\<open>UPDATE subscriptions SET ... WHERE deviceId=?\<close> statements: a row that is not
  there is not created.
\<close>

definition update_where :: "(row \<Rightarrow> row) \<Rightarrow> database \<Rightarrow> string option \<Rightarrow> error + database" where
  "update_where f db deviceId =
     (case deviceId of
        None \<Rightarrow> Inl TypeError
      | Some d \<Rightarrow>
          (case rows db d of
             None \<Rightarrow> Inr db
           | Some r \<Rightarrow> Inr (db\<lparr>rows := (rows db)(d \<mapsto> f r)\<rparr>)))"

text \<open>\<^verbatim>\<open>SET status='inactive'\<close>.\<close>

definition set_inactive :: "row \<Rightarrow> row" where
  "set_inactive r = r\<lparr>status := ''inactive''\<rparr>"

text \<open>\<^verbatim>\<open>SET plan='free', status='inactive', expiresAt=NULL\<close>.\<close>

definition set_free :: "row \<Rightarrow> row" where
  "set_free r = r\<lparr>plan := ''free'', status := ''inactive'', expiresAt := None\<rparr>"

text \<open>\<^verbatim>\<open>SET plan=?, status=?, expiresAt=?\<close>.\<close>

definition set_plan_status_expires :: "string \<Rightarrow> string \<Rightarrow> int option \<Rightarrow> row \<Rightarrow> row" where
  "set_plan_status_expires p st ex r = r\<lparr>plan := p, status := st, expiresAt := ex\<rparr>"

text \<open>\<^verbatim>\<open>SELECT * FROM subscriptions WHERE deviceId = ?\<close> with \<^verbatim>\<open>.get(deviceId)\<close>.\<close>

definition select_row :: "database \<Rightarrow> string \<Rightarrow> error + row option" where
  "select_row db deviceId = Inr (rows db deviceId)"

section \<open>The webhook of \<^verbatim>\<open>server.js\<close>\<close>

text \<open>\<^verbatim>\<open>res.json({ received: true })\<close>.\<close>

definition received :: response where
  "received = Json 200 [(''received'', JBool True)]"

text \<open>What the body of a \<^verbatim>\<open>try\<close> block, or of a handler, comes to.\<close>

datatype outcome = Threw error | Done response

type_synonym result = "outcome \<times> database \<times> processor"

text \<open>Lines 118 to 150: \<^verbatim>\<open>checkout.session.completed\<close>.\<close>

definition checkout_completed :: "database \<Rightarrow> processor \<Rightarrow> session \<Rightarrow> result" where
  "checkout_completed db p session =
     (let deviceId = optional_chain (ses_metadata session) ''deviceId'';
          pl = optional_chain (ses_metadata session) ''plan''
      in
        if \<not> truthy deviceId \<or> \<not> truthy (ses_subscription session) then (Done received, db, p)
        else
          (case retrieve p (ses_subscription session) of
             Inl e \<Rightarrow> (Threw e, db, p)
           | Inr subscription \<Rightarrow>
               (case update_metadata p (ses_subscription session) deviceId of
                  Inl e \<Rightarrow> (Threw e, db, p)
                | Inr p' \<Rightarrow>
                    (case upsert True db deviceId pl (sub_status subscription)
                            (expires_ms (sub_trial_end subscription))
                            (Some (sub_customer subscription)) of
                       Inl e \<Rightarrow> (Threw e, db, p')
                     | Inr db' \<Rightarrow> (Done received, db', p')))))"

text \<open>Lines 153 to 182: \<^verbatim>\<open>customer.subscription.created\<close> and \<^verbatim>\<open>customer.subscription.updated\<close>.\<close>

definition subscription_changed :: "database \<Rightarrow> processor \<Rightarrow> subscription \<Rightarrow> result" where
  "subscription_changed db p sub =
     (let deviceId = optional_chain (sub_metadata sub) ''deviceId'' in
        if \<not> truthy deviceId then (Done received, db, p)
        else
          (case sub_interval sub of
             None \<Rightarrow> (Threw TypeError, db, p)
           | Some i \<Rightarrow>
               (case upsert True db deviceId (Some (plan_of_interval i)) (sub_status sub)
                       (expires_ms (sub_trial_end sub)) (Some (sub_customer sub)) of
                  Inl e \<Rightarrow> (Threw e, db, p)
                | Inr db' \<Rightarrow> (Done received, db', p))))"

text \<open>Lines 185 to 198: \<^verbatim>\<open>invoice.payment_failed\<close>.\<close>

definition payment_failed :: "database \<Rightarrow> processor \<Rightarrow> invoice \<Rightarrow> result" where
  "payment_failed db p invoice =
     (if \<not> truthy (inv_subscription invoice) then (Done received, db, p)
      else
        (case retrieve p (inv_subscription invoice) of
           Inl e \<Rightarrow> (Threw e, db, p)
         | Inr sub \<Rightarrow>
             (let deviceId = optional_chain (sub_metadata sub) ''deviceId'' in
                if \<not> truthy deviceId then (Done received, db, p)
                else
                  (case update_where set_inactive db deviceId of
                     Inl e \<Rightarrow> (Threw e, db, p)
                   | Inr db' \<Rightarrow> (Done received, db', p)))))"

text \<open>Lines 201 to 211: \<^verbatim>\<open>customer.subscription.deleted\<close>.\<close>

definition subscription_deleted :: "database \<Rightarrow> processor \<Rightarrow> subscription \<Rightarrow> result" where
  "subscription_deleted db p sub =
     (let deviceId = optional_chain (sub_metadata sub) ''deviceId'' in
        if \<not> truthy deviceId then (Done received, db, p)
        else
          (case update_where set_free db deviceId of
             Inl e \<Rightarrow> (Threw e, db, p)
           | Inr db' \<Rightarrow> (Done received, db', p)))"

text \<open>
  Lines 117 to 213, the \<^verbatim>\<open>if\<close> statements on \<^verbatim>\<open>event.type\<close> one after the other; a branch
  that neither returns nor throws reaches the \<^verbatim>\<open>res.json({ received: true })\<close> of line 213.
\<close>

definition webhook_event :: "database \<Rightarrow> processor \<Rightarrow> event \<Rightarrow> result" where
  "webhook_event db p ev =
     (case ev of
        CheckoutSessionCompleted session \<Rightarrow> checkout_completed db p session
      | SubscriptionCreated sub \<Rightarrow> subscription_changed db p sub
      | SubscriptionUpdated sub \<Rightarrow> subscription_changed db p sub
      | InvoicePaymentFailed invoice \<Rightarrow> payment_failed db p invoice
      | SubscriptionDeleted sub \<Rightarrow> subscription_deleted db p sub
      | Other t \<Rightarrow> (Done received, db, p))"

text \<open>
  A request to \<^verbatim>\<open>/webhook\<close>: the raw body and the \<^verbatim>\<open>stripe-signature\<close> header.
  \<^verbatim>\<open>stripe.webhooks.constructEvent\<close> belongs to the processor's SDK and is a parameter here:
  it returns the event, or throws with a message.
\<close>

record request =
  body :: string
  stripe_signature :: "string option"

type_synonym verifier = "request \<Rightarrow> string + event"

text \<open>
  Lines 101 to 218: the signature check answers 400 by itself; whatever the rest throws is
  caught by the outer \<^verbatim>\<open>catch\<close>, which answers \<^verbatim>\<open>{ received: true }\<close>.
\<close>

definition webhook ::
  "verifier \<Rightarrow> database \<Rightarrow> processor \<Rightarrow> request \<Rightarrow> response \<times> database \<times> processor" where
  "webhook constructEvent db p req =
     (case constructEvent req of
        Inl msg \<Rightarrow> (Send 400 ''Invalid signature'', db, p)
      | Inr ev \<Rightarrow>
          (case webhook_event db p ev of
             (Threw e, db', p') \<Rightarrow> (received, db', p')
           | (Done r, db', p') \<Rightarrow> (r, db', p')))"

text \<open>Lines 224 to 251: \<^verbatim>\<open>GET /subscription-status/:deviceId\<close>.\<close>

definition null_or_number :: "int option \<Rightarrow> json" where
  "null_or_number v = (case v of None \<Rightarrow> JNull | Some n \<Rightarrow> JNum n)"

definition subscription_status :: "database \<Rightarrow> string \<Rightarrow> response" where
  "subscription_status db deviceId =
     (case select_row db deviceId of
        Inl e \<Rightarrow>
          Json 200 [(''plan'', JStr ''free''), (''status'', JStr ''inactive''), (''expiresAt'', JNull)]
      | Inr None \<Rightarrow>
          Json 200 [(''plan'', JStr ''free''), (''status'', JStr ''inactive''), (''expiresAt'', JNull)]
      | Inr (Some r) \<Rightarrow>
          Json 200 [(''plan'', JStr (plan r)), (''status'', JStr (status r)),
                    (''expiresAt'', null_or_number (expiresAt r))])"

section \<open>The webhook of the second source file\<close>

text \<open>
  \<^verbatim>\<open>src/unnamed/part_000\<close> holds a second server with the same routes. Its webhook reads
  \<^verbatim>\<open>metadata.deviceId\<close> without \<^verbatim>\<open>?.\<close>, has one branch for each of created and updated, and no
  \<^verbatim>\<open>try\<close> around the branches.
\<close>

text \<open>Lines 95 to 129: \<^verbatim>\<open>checkout.session.completed\<close>; the customer is the session's.\<close>

definition checkout_completed_part_000 :: "database \<Rightarrow> processor \<Rightarrow> session \<Rightarrow> result" where
  "checkout_completed_part_000 db p session =
     (case property (ses_metadata session) ''deviceId'' of
        Inl e \<Rightarrow> (Threw e, db, p)
      | Inr deviceId \<Rightarrow>
          (case property (ses_metadata session) ''plan'' of
             Inl e \<Rightarrow> (Threw e, db, p)
           | Inr pl \<Rightarrow>
               (case retrieve p (ses_subscription session) of
                  Inl e \<Rightarrow> (Threw e, db, p)
                | Inr subscription \<Rightarrow>
                    (case update_metadata p (ses_subscription session) deviceId of
                       Inl e \<Rightarrow> (Threw e, db, p)
                     | Inr p' \<Rightarrow>
                         (case upsert True db deviceId pl (sub_status subscription)
                                 (expires_ms (sub_trial_end subscription))
                                 (ses_customer session) of
                            Inl e \<Rightarrow> (Threw e, db, p')
                          | Inr db' \<Rightarrow> (Done received, db', p'))))))"

text \<open>
  Lines 131 to 158: \<^verbatim>\<open>customer.subscription.created\<close>; the conflict clause does not list
  \<open>expiresAt\<close>.
\<close>

definition subscription_created_part_000 :: "database \<Rightarrow> processor \<Rightarrow> subscription \<Rightarrow> result" where
  "subscription_created_part_000 db p subscription =
     (case property (sub_metadata subscription) ''deviceId'' of
        Inl e \<Rightarrow> (Threw e, db, p)
      | Inr deviceId \<Rightarrow>
          if \<not> truthy deviceId then (Done received, db, p)
          else
            (case sub_interval subscription of
               None \<Rightarrow> (Threw TypeError, db, p)
             | Some i \<Rightarrow>
                 (case upsert False db deviceId (Some (plan_of_interval i)) (sub_status subscription)
                         (expires_ms (sub_trial_end subscription))
                         (Some (sub_customer subscription)) of
                    Inl e \<Rightarrow> (Threw e, db, p)
                  | Inr db' \<Rightarrow> (Done received, db', p))))"

text \<open>Lines 160 to 185: \<^verbatim>\<open>customer.subscription.updated\<close>, an \<^verbatim>\<open>UPDATE\<close>.\<close>

definition subscription_updated_part_000 :: "database \<Rightarrow> processor \<Rightarrow> subscription \<Rightarrow> result" where
  "subscription_updated_part_000 db p subscription =
     (case property (sub_metadata subscription) ''deviceId'' of
        Inl e \<Rightarrow> (Threw e, db, p)
      | Inr deviceId \<Rightarrow>
          if \<not> truthy deviceId then (Done received, db, p)
          else
            (case sub_interval subscription of
               None \<Rightarrow> (Threw TypeError, db, p)
             | Some i \<Rightarrow>
                 (case update_where
                         (set_plan_status_expires (plan_of_interval i) (sub_status subscription)
                            (expires_ms (sub_trial_end subscription)))
                         db deviceId of
                    Inl e \<Rightarrow> (Threw e, db, p)
                  | Inr db' \<Rightarrow> (Done received, db', p))))"

text \<open>
  Lines 187 to 204: \<^verbatim>\<open>invoice.payment_failed\<close>; the branch has a \<^verbatim>\<open>try\<close> of its own, whose
  \<^verbatim>\<open>catch\<close> logs and goes on to the acknowledgment.
\<close>

definition payment_failed_part_000 :: "database \<Rightarrow> processor \<Rightarrow> invoice \<Rightarrow> result" where
  "payment_failed_part_000 db p invoice =
     (case retrieve p (inv_subscription invoice) of
        Inl e \<Rightarrow> (Done received, db, p)
      | Inr sub \<Rightarrow>
          (case property (sub_metadata sub) ''deviceId'' of
             Inl e \<Rightarrow> (Done received, db, p)
           | Inr deviceId \<Rightarrow>
               if \<not> truthy deviceId then (Done received, db, p)
               else
                 (case update_where set_inactive db deviceId of
                    Inl e \<Rightarrow> (Done received, db, p)
                  | Inr db' \<Rightarrow> (Done received, db', p))))"

text \<open>Lines 208 to 217: \<^verbatim>\<open>customer.subscription.deleted\<close>, with no check of \<open>deviceId\<close>.\<close>

definition subscription_deleted_part_000 :: "database \<Rightarrow> processor \<Rightarrow> subscription \<Rightarrow> result" where
  "subscription_deleted_part_000 db p subscription =
     (case property (sub_metadata subscription) ''deviceId'' of
        Inl e \<Rightarrow> (Threw e, db, p)
      | Inr deviceId \<Rightarrow>
          (case update_where set_free db deviceId of
             Inl e \<Rightarrow> (Threw e, db, p)
           | Inr db' \<Rightarrow> (Done received, db', p)))"

definition webhook_event_part_000 :: "database \<Rightarrow> processor \<Rightarrow> event \<Rightarrow> result" where
  "webhook_event_part_000 db p ev =
     (case ev of
        CheckoutSessionCompleted session \<Rightarrow> checkout_completed_part_000 db p session
      | SubscriptionCreated subscription \<Rightarrow> subscription_created_part_000 db p subscription
      | SubscriptionUpdated subscription \<Rightarrow> subscription_updated_part_000 db p subscription
      | InvoicePaymentFailed invoice \<Rightarrow> payment_failed_part_000 db p invoice
      | SubscriptionDeleted subscription \<Rightarrow> subscription_deleted_part_000 db p subscription
      | Other t \<Rightarrow> (Done received, db, p))"

text \<open>
  Lines 76 to 221: the handler is \<^verbatim>\<open>async\<close> and nothing catches what a branch throws, so
  the promise rejects and no response is written.
\<close>

definition webhook_part_000 ::
  "verifier \<Rightarrow> database \<Rightarrow> processor \<Rightarrow> request \<Rightarrow> response \<times> database \<times> processor" where
  "webhook_part_000 constructEvent db p req =
     (case constructEvent req of
        Inl msg \<Rightarrow> (Send 400 (''Webhook Error: '' @ msg), db, p)
      | Inr ev \<Rightarrow>
          (case webhook_event_part_000 db p ev of
             (Threw e, db', p') \<Rightarrow> (Unhandled e, db', p')
           | (Done r, db', p') \<Rightarrow> (r, db', p')))"

text \<open>
  Lines 223 to 237: \<^verbatim>\<open>GET /subscription-status/:deviceId\<close>. The handler is synchronous and
  has no \<^verbatim>\<open>try\<close>: the framework answers 500 for what it throws.
\<close>

definition subscription_status_part_000 :: "database \<Rightarrow> string \<Rightarrow> response" where
  "subscription_status_part_000 db deviceId =
     (case select_row db deviceId of
        Inl e \<Rightarrow> Send 500 ''Internal Server Error''
      | Inr None \<Rightarrow>
          Json 200 [(''plan'', JStr ''free''), (''status'', JStr ''inactive''), (''trial'', JBool False)]
      | Inr (Some r) \<Rightarrow>
          Json 200 [(''plan'', JStr (plan r)), (''status'', JStr (status r)),
                    (''expiresAt'', null_or_number (expiresAt r))])"

section \<open>Deliveries and linkage\<close>

text \<open>
  The server handles one delivery after the other; the store and the processor's state go
  from each to the next.
\<close>

type_synonym handler = "database \<Rightarrow> processor \<Rightarrow> request \<Rightarrow> response \<times> database \<times> processor"

fun deliveries :: "handler \<Rightarrow> database \<times> processor \<Rightarrow> request list \<Rightarrow> database \<times> processor" where
  "deliveries h s [] = s"
| "deliveries h s (req # reqs) = deliveries h (snd (h (fst s) (snd s) req)) reqs"

text \<open>
  The device an event is linked to, read where \<^verbatim>\<open>server.js\<close> reads it: the metadata of the
  session or of the subscription, and for an invoice the metadata of the subscription that
  the processor returns for \<^verbatim>\<open>invoice.subscription\<close>.
\<close>

definition linkage :: "processor \<Rightarrow> event \<Rightarrow> string option" where
  "linkage p ev =
     (case ev of
        CheckoutSessionCompleted session \<Rightarrow> optional_chain (ses_metadata session) ''deviceId''
      | SubscriptionCreated sub \<Rightarrow> optional_chain (sub_metadata sub) ''deviceId''
      | SubscriptionUpdated sub \<Rightarrow> optional_chain (sub_metadata sub) ''deviceId''
      | InvoicePaymentFailed invoice \<Rightarrow>
          (if \<not> truthy (inv_subscription invoice) then None
           else
             (case retrieve p (inv_subscription invoice) of
                Inl e \<Rightarrow> None
              | Inr sub \<Rightarrow> optional_chain (sub_metadata sub) ''deviceId''))
      | SubscriptionDeleted sub \<Rightarrow> optional_chain (sub_metadata sub) ''deviceId''
      | Other t \<Rightarrow> None)"

text \<open>The database that a statement leaves: the one it returns, or the old one when it throws.\<close>

definition stored :: "error + database \<Rightarrow> database \<Rightarrow> database" where
  "stored r db = (case r of Inl e \<Rightarrow> db | Inr db' \<Rightarrow> db')"

text \<open>The device has a row, and the row's \<open>customerId\<close> is not \<^verbatim>\<open>NULL\<close>.\<close>

definition has_customer :: "database \<Rightarrow> string \<Rightarrow> bool" where
  "has_customer db d = (case rows db d of None \<Rightarrow> False | Some r \<Rightarrow> customerId r \<noteq> None)"

section \<open>Sample data\<close>

text \<open>
  A stand-in for the SDK's verification: it accepts one signature, and decodes the bodies
  it is given events for.
\<close>

definition sample_constructEvent :: "(string \<times> event) list \<Rightarrow> verifier" where
  "sample_constructEvent known req =
     (if stripe_signature req = Some ''t=1,v1=5257''
      then (case map_of known (body req) of
              None \<Rightarrow> Inl ''Unexpected end of JSON input''
            | Some ev \<Rightarrow> Inr ev)
      else Inl ''No signatures found matching the expected signature for payload'')"

definition signed :: "string \<Rightarrow> request" where
  "signed b = \<lparr>body = b, stripe_signature = Some ''t=1,v1=5257''\<rparr>"

definition sample_subscription :: subscription where
  "sample_subscription =
     \<lparr>sub_metadata = Some [''deviceId'' \<mapsto> ''abc''], sub_status = ''trialing'',
      sub_trial_end = Some 1700000000, sub_customer = ''cus_1'', sub_interval = Some ''month''\<rparr>"

definition sample_session :: session where
  "sample_session =
     \<lparr>ses_metadata = Some [''deviceId'' \<mapsto> ''abc'', ''plan'' \<mapsto> ''monthly''],
      ses_subscription = Some ''sub_1'', ses_customer = Some ''cus_1''\<rparr>"

definition sample_processor :: processor where
  "sample_processor = [''sub_1'' \<mapsto> sample_subscription]"

text \<open>The record of the specification's example, in a table that \<^verbatim>\<open>db.js\<close> created.\<close>

definition sample_row :: row where
  "sample_row =
     \<lparr>plan = ''monthly'', status = ''trialing'', trial = Some 0,
      expiresAt = Some 1700000000000, customerId = Some ''cus_1''\<rparr>"

definition sample_db :: database where
  "sample_db = \<lparr>trial_not_null = True, rows = [''abc'' \<mapsto> sample_row]\<rparr>"

text \<open>A table without the constraint on \<open>trial\<close>, with no row, and with the row of a lapsed plan.\<close>

definition empty_db :: database where
  "empty_db = \<lparr>trial_not_null = False, rows = Map.empty\<rparr>"

definition lapsed_db :: database where
  "lapsed_db =
     \<lparr>trial_not_null = False,
      rows = [''abc'' \<mapsto> \<lparr>plan = ''free'', status = ''inactive'', trial = None,
                               expiresAt = None, customerId = Some ''cus_0''\<rparr>]\<rparr>"

section \<open>Unfolding\<close>

lemmas sample_defs = sample_constructEvent_def signed_def sample_subscription_def
  sample_session_def sample_processor_def sample_row_def sample_db_def empty_db_def lapsed_db_def

lemmas store_defs = upsert_def update_where_def set_inactive_def set_free_def
  set_plan_status_expires_def select_row_def stored_def

lemmas value_defs = truthy_def optional_chain_def property_def expires_ms_def
  plan_of_interval_def retrieve_def update_metadata_def merge_deviceId_def received_def

lemmas server_defs = webhook_def webhook_event_def checkout_completed_def
  subscription_changed_def payment_failed_def subscription_deleted_def

lemmas part_000_defs = webhook_part_000_def webhook_event_part_000_def
  checkout_completed_part_000_def subscription_created_part_000_def
  subscription_updated_part_000_def payment_failed_part_000_def
  subscription_deleted_part_000_def

lemma metadata_property:
  "optional_chain m k = Some v \<Longrightarrow> property m k = Inr (Some v)"
  by (cases m) (simp_all add: optional_chain_def property_def)

section \<open>Rejection of an unverifiable signature\<close>

text \<open>
  C6. When \<^verbatim>\<open>constructEvent\<close> throws, both webhooks answer with status 400, a rejection
  and not the acknowledgment, and the store (and the processor) are as they were: no
  statement is run.
\<close>

theorem invalid_signature_rejected:
  assumes "constructEvent req = Inl msg"
  shows "webhook constructEvent db p req = (Send 400 ''Invalid signature'', db, p) \<and>
         webhook_part_000 constructEvent db p req = (Send 400 (''Webhook Error: '' @ msg), db, p)"
  using assms by (simp add: webhook_def webhook_part_000_def)

theorem invalid_signature_rejected_witness:
  "sample_constructEvent [] \<lparr>body = ''{}'', stripe_signature = None\<rparr> =
     Inl ''No signatures found matching the expected signature for payload'' \<and>
   webhook (sample_constructEvent []) sample_db sample_processor
     \<lparr>body = ''{}'', stripe_signature = None\<rparr> =
     (Send 400 ''Invalid signature'', sample_db, sample_processor) \<and>
   webhook_part_000 (sample_constructEvent []) sample_db sample_processor
     \<lparr>body = ''{}'', stripe_signature = None\<rparr> =
     (Send 400 ''Webhook Error: No signatures found matching the expected signature for payload'',
      sample_db, sample_processor)"
proof -
  have h: "sample_constructEvent [] \<lparr>body = ''{}'', stripe_signature = None\<rparr> =
     Inl ''No signatures found matching the expected signature for payload''"
    by (simp add: sample_constructEvent_def)
  from invalid_signature_rejected[of "sample_constructEvent []", OF h, of sample_db sample_processor] h
  show ?thesis by simp
qed

section \<open>Events without linkage\<close>

text \<open>
  C3. A verified event that is linked to no device (its metadata has no \<open>deviceId\<close>, or an
  empty one; for an invoice, no subscription is named, the lookup fails, or the
  subscription found has none) makes the webhook of \<^verbatim>\<open>server.js\<close> answer
  \<^verbatim>\<open>{ received: true }\<close>, with the store and the processor as they were. The handler
  returns a response whatever the event's type is.
\<close>

theorem unlinked_event_acknowledged:
  assumes "constructEvent req = Inr ev" and "\<not> truthy (linkage p ev)"
  shows "webhook constructEvent db p req = (received, db, p)"
  using assms
  by (cases ev) (auto simp: server_defs linkage_def Let_def split: sum.splits if_splits)

theorem unlinked_event_acknowledged_witness:
  "\<not> truthy (linkage sample_processor
       (SubscriptionDeleted (sample_subscription\<lparr>sub_metadata := Some Map.empty\<rparr>))) \<and>
   webhook
     (sample_constructEvent
        [(''evt_1'', SubscriptionDeleted (sample_subscription\<lparr>sub_metadata := Some Map.empty\<rparr>))])
     sample_db sample_processor (signed ''evt_1'') =
   (Json 200 [(''received'', JBool True)], sample_db, sample_processor)"
proof -
  let ?ev = "SubscriptionDeleted (sample_subscription\<lparr>sub_metadata := Some Map.empty\<rparr>)"
  have h1: "sample_constructEvent [(''evt_1'', ?ev)] (signed ''evt_1'') = Inr ?ev"
    by (simp add: sample_constructEvent_def signed_def)
  have h2: "\<not> truthy (linkage sample_processor ?ev)"
    by (simp add: linkage_def optional_chain_def truthy_def sample_subscription_def)
  from unlinked_event_acknowledged[of "sample_constructEvent [(''evt_1'', ?ev)]", OF h1 h2,
      of sample_db] h2
  show ?thesis by (simp add: received_def)
qed

section \<open>Soft reset and payment failure\<close>

text \<open>
  C4. A verified \<^verbatim>\<open>customer.subscription.deleted\<close> event linked to a device \<open>d\<close> is
  acknowledged by both webhooks, and the store differs at \<open>d\<close> only: whatever the row of
  \<open>d\<close> was, it now has plan \<open>free\<close>, status \<open>inactive\<close> and \<open>expiresAt\<close> \<^verbatim>\<open>NULL\<close>, and
  its \<open>customerId\<close> (and \<open>trial\<close>) as before.
\<close>

theorem subscription_deleted_resets:
  assumes "constructEvent req = Inr (SubscriptionDeleted sub)"
    and "linkage p (SubscriptionDeleted sub) = Some d" and "d \<noteq> []"
  shows "webhook constructEvent db p req =
           (received,
            db\<lparr>rows := (rows db)(d := map_option
               (\<lambda>r. r\<lparr>plan := ''free'', status := ''inactive'', expiresAt := None\<rparr>) (rows db d))\<rparr>,
            p) \<and>
         webhook_part_000 constructEvent db p req =
           (received,
            db\<lparr>rows := (rows db)(d := map_option
               (\<lambda>r. r\<lparr>plan := ''free'', status := ''inactive'', expiresAt := None\<rparr>) (rows db d))\<rparr>,
            p)"
  using assms
  by (auto simp: server_defs part_000_defs linkage_def Let_def store_defs truthy_def
        optional_chain_def property_def fun_upd_idem split: sum.splits if_splits option.splits)

theorem subscription_deleted_resets_witness:
  "linkage sample_processor (SubscriptionDeleted sample_subscription) = Some ''abc'' \<and>
   webhook (sample_constructEvent [(''evt_1'', SubscriptionDeleted sample_subscription)])
     sample_db sample_processor (signed ''evt_1'') =
     (received,
      \<lparr>trial_not_null = True,
       rows = [''abc'' \<mapsto> \<lparr>plan = ''free'', status = ''inactive'', trial = Some 0,
                               expiresAt = None, customerId = Some ''cus_1''\<rparr>]\<rparr>,
      sample_processor) \<and>
   webhook_part_000 (sample_constructEvent [(''evt_1'', SubscriptionDeleted sample_subscription)])
     sample_db sample_processor (signed ''evt_1'') =
     (received,
      \<lparr>trial_not_null = True,
       rows = [''abc'' \<mapsto> \<lparr>plan = ''free'', status = ''inactive'', trial = Some 0,
                               expiresAt = None, customerId = Some ''cus_1''\<rparr>]\<rparr>,
      sample_processor)"
proof -
  let ?ev = "SubscriptionDeleted sample_subscription"
  have h1: "sample_constructEvent [(''evt_1'', ?ev)] (signed ''evt_1'') = Inr ?ev"
    by (simp add: sample_constructEvent_def signed_def)
  have h2: "linkage sample_processor ?ev = Some ''abc''"
    by (simp add: linkage_def optional_chain_def sample_subscription_def)
  have h3: "''abc'' \<noteq> []" by simp
  from subscription_deleted_resets[of "sample_constructEvent [(''evt_1'', ?ev)]", OF h1 h2 h3,
      of sample_db] h2
  show ?thesis by (simp add: sample_db_def sample_row_def)
qed

text \<open>
  C5. A verified \<^verbatim>\<open>invoice.payment_failed\<close> event whose subscription the processor links to
  a device \<open>d\<close> is acknowledged by the webhook of \<^verbatim>\<open>server.js\<close>, and the store differs in
  one field only: the row of \<open>d\<close>, when there is one, has status \<open>inactive\<close>. Its plan,
  \<open>expiresAt\<close> and \<open>customerId\<close>, and the rows of all other devices, are as before.
\<close>

theorem payment_failed_sets_status_only:
  assumes "constructEvent req = Inr (InvoicePaymentFailed invoice)"
    and "linkage p (InvoicePaymentFailed invoice) = Some d" and "d \<noteq> []"
  shows "webhook constructEvent db p req =
           (received,
            db\<lparr>rows := (rows db)(d := map_option (\<lambda>r. r\<lparr>status := ''inactive''\<rparr>) (rows db d))\<rparr>,
            p)"
  using assms
  by (auto simp: server_defs linkage_def Let_def store_defs truthy_def fun_upd_idem
        split: sum.splits if_splits option.splits)

theorem payment_failed_sets_status_only_witness:
  "linkage sample_processor (InvoicePaymentFailed \<lparr>inv_subscription = Some ''sub_1''\<rparr>) =
     Some ''abc'' \<and>
   rows sample_db ''abc'' =
     Some \<lparr>plan = ''monthly'', status = ''trialing'', trial = Some 0,
           expiresAt = Some 1700000000000, customerId = Some ''cus_1''\<rparr> \<and>
   webhook
     (sample_constructEvent [(''evt_1'', InvoicePaymentFailed \<lparr>inv_subscription = Some ''sub_1''\<rparr>)])
     sample_db sample_processor (signed ''evt_1'') =
     (received,
      \<lparr>trial_not_null = True,
       rows = [''abc'' \<mapsto> \<lparr>plan = ''monthly'', status = ''inactive'', trial = Some 0,
                               expiresAt = Some 1700000000000, customerId = Some ''cus_1''\<rparr>]\<rparr>,
      sample_processor)"
proof -
  let ?ev = "InvoicePaymentFailed \<lparr>inv_subscription = Some ''sub_1''\<rparr>"
  have h1: "sample_constructEvent [(''evt_1'', ?ev)] (signed ''evt_1'') = Inr ?ev"
    by (simp add: sample_constructEvent_def signed_def)
  have h2: "linkage sample_processor ?ev = Some ''abc''"
    by (simp add: linkage_def optional_chain_def truthy_def retrieve_def sample_processor_def
          sample_subscription_def)
  have h3: "''abc'' \<noteq> []" by simp
  from payment_failed_sets_status_only[of "sample_constructEvent [(''evt_1'', ?ev)]",
      OF h1 h2 h3, of sample_db] h2
  show ?thesis by (simp add: sample_db_def sample_row_def)
qed

text \<open>
  C10. A verified \<^verbatim>\<open>customer.subscription.deleted\<close> or \<^verbatim>\<open>invoice.payment_failed\<close> event
  creates no row in \<^verbatim>\<open>server.js\<close>: a device without a row before the delivery has none
  after it.
\<close>

theorem update_creates_no_row:
  assumes "constructEvent req = Inr ev"
    and "ev = SubscriptionDeleted sub \<or> ev = InvoicePaymentFailed invoice"
    and "rows db d = None"
  shows "rows (fst (snd (webhook constructEvent db p req))) d = None"
  using assms
  by (auto simp: server_defs Let_def update_where_def split: if_splits option.splits sum.splits)

theorem update_creates_no_row_witness:
  "rows empty_db ''abc'' = None \<and>
   rows (fst (snd (webhook
      (sample_constructEvent [(''evt_1'', SubscriptionDeleted sample_subscription)])
      empty_db sample_processor (signed ''evt_1'')))) ''abc'' = None \<and>
   rows (fst (snd (webhook
      (sample_constructEvent [(''evt_2'', InvoicePaymentFailed \<lparr>inv_subscription = Some ''sub_1''\<rparr>)])
      empty_db sample_processor (signed ''evt_2'')))) ''abc'' = None"
proof -
  let ?del = "SubscriptionDeleted sample_subscription"
  let ?inv = "\<lparr>inv_subscription = Some ''sub_1''\<rparr>"
  have h1: "sample_constructEvent [(''evt_1'', ?del)] (signed ''evt_1'') = Inr ?del"
    by (simp add: sample_constructEvent_def signed_def)
  have h2: "sample_constructEvent [(''evt_2'', InvoicePaymentFailed ?inv)] (signed ''evt_2'') =
      Inr (InvoicePaymentFailed ?inv)"
    by (simp add: sample_constructEvent_def signed_def)
  have h3: "rows empty_db ''abc'' = None" by (simp add: empty_db_def)
  have a: "?del = SubscriptionDeleted sample_subscription \<or> ?del = InvoicePaymentFailed ?inv"
    by simp
  have b: "InvoicePaymentFailed ?inv = SubscriptionDeleted sample_subscription
      \<or> InvoicePaymentFailed ?inv = InvoicePaymentFailed ?inv"
    by simp
  from update_creates_no_row[of "sample_constructEvent [(''evt_1'', ?del)]", OF h1 a h3]
    update_creates_no_row[of "sample_constructEvent [(''evt_2'', InvoicePaymentFailed ?inv)]",
      OF h2 b h3] h3
  show ?thesis by simp
qed

section \<open>Redelivery\<close>

lemma upsert_twice:
  assumes "upsert se db dv pl st ex cu = Inr db'"
  shows "upsert se db' dv pl st ex cu = Inr db'"
proof -
  from assms obtain d q where dv: "dv = Some d" and pl: "pl = Some q"
    and t: "\<not> trial_not_null db"
    by (auto simp: upsert_def split: option.splits if_splits)
  show ?thesis
  proof (cases "rows db d")
    case None
    with assms dv pl t have "db' = db\<lparr>rows := (rows db)(d \<mapsto>
        \<lparr>plan = q, status = st, trial = None, expiresAt = ex, customerId = cu\<rparr>)\<rparr>"
      by (simp add: upsert_def)
    then show ?thesis using dv pl t by (simp add: upsert_def)
  next
    case (Some r)
    with assms dv pl t have "db' = db\<lparr>rows := (rows db)(d \<mapsto>
        r\<lparr>plan := q, status := st, expiresAt := (if se then ex else expiresAt r),
          customerId := cu\<rparr>)\<rparr>"
      by (simp add: upsert_def)
    then show ?thesis using dv pl t by (simp add: upsert_def)
  qed
qed

lemma update_where_twice:
  assumes "\<And>r. f (f r) = f r" and "update_where f db dv = Inr db'"
  shows "update_where f db' dv = Inr db'"
proof -
  from assms(2) obtain d where dv: "dv = Some d"
    by (auto simp: update_where_def split: option.splits)
  show ?thesis
  proof (cases "rows db d")
    case None
    with assms(2) dv have "db' = db" by (simp add: update_where_def)
    then show ?thesis using assms(2) by simp
  next
    case (Some r)
    with assms(2) dv have "db' = db\<lparr>rows := (rows db)(d \<mapsto> f r)\<rparr>"
      by (simp add: update_where_def)
    then show ?thesis using dv assms(1) by (simp add: update_where_def)
  qed
qed

lemma subscription_changed_twice:
  assumes "subscription_changed db p sub = (out, db', p')"
  shows "subscription_changed db' p' sub = (out, db', p')"
proof (cases "truthy (optional_chain (sub_metadata sub) ''deviceId'')")
  case False
  with assms show ?thesis by (simp add: subscription_changed_def)
next
  case link: True
  show ?thesis
  proof (cases "sub_interval sub")
    case None
    with assms link show ?thesis by (simp add: subscription_changed_def)
  next
    case (Some i)
    let ?run = "\<lambda>x. upsert True x (optional_chain (sub_metadata sub) ''deviceId'')
        (Some (plan_of_interval i)) (sub_status sub) (expires_ms (sub_trial_end sub))
        (Some (sub_customer sub))"
    show ?thesis
    proof (cases "?run db")
      case (Inl e)
      with assms link Some show ?thesis by (simp add: subscription_changed_def)
    next
      case (Inr x)
      with assms link Some have x: "x = db'" and o: "out = Done received" and q: "p' = p"
        by (simp_all add: subscription_changed_def)
      from Inr x have "?run db' = Inr db'" by (simp add: upsert_twice)
      with link Some o q show ?thesis by (simp add: subscription_changed_def)
    qed
  qed
qed

lemma subscription_updated_part_000_twice:
  assumes "subscription_updated_part_000 db p sub = (out, db', p')"
  shows "subscription_updated_part_000 db' p' sub = (out, db', p')"
proof (cases "property (sub_metadata sub) ''deviceId''")
  case (Inl e)
  with assms show ?thesis by (simp add: subscription_updated_part_000_def)
next
  case dev: (Inr deviceId)
  show ?thesis
  proof (cases "truthy deviceId")
    case False
    with assms dev show ?thesis by (simp add: subscription_updated_part_000_def)
  next
    case link: True
    show ?thesis
    proof (cases "sub_interval sub")
      case None
      with assms dev link show ?thesis by (simp add: subscription_updated_part_000_def)
    next
      case (Some i)
      let ?f = "set_plan_status_expires (plan_of_interval i) (sub_status sub)
                  (expires_ms (sub_trial_end sub))"
      have idem: "\<And>r. ?f (?f r) = ?f r" by (simp add: set_plan_status_expires_def)
      show ?thesis
      proof (cases "update_where ?f db deviceId")
        case (Inl e)
        with assms dev link Some show ?thesis by (simp add: subscription_updated_part_000_def)
      next
        case (Inr x)
        with assms dev link Some have x: "x = db'" and o: "out = Done received" and q: "p' = p"
          by (simp_all add: subscription_updated_part_000_def)
        from Inr x have "update_where ?f db' deviceId = Inr db'"
          using update_where_twice[of ?f db deviceId db'] idem by simp
        with dev link Some o q show ?thesis by (simp add: subscription_updated_part_000_def)
      qed
    qed
  qed
qed

text \<open>
  C1. A verified \<^verbatim>\<open>customer.subscription.updated\<close> event linked to a device, delivered
  twice, leaves the store (and the processor) as one delivery leaves them, from every
  state and in both webhooks: the second delivery runs the same statement with the same
  values on a row that already holds them.
\<close>

theorem subscription_updated_idempotent:
  assumes "constructEvent req = Inr (SubscriptionUpdated sub)"
    and "truthy (linkage p (SubscriptionUpdated sub))"
  shows "deliveries (webhook constructEvent) (db, p) [req, req] =
           deliveries (webhook constructEvent) (db, p) [req] \<and>
         deliveries (webhook_part_000 constructEvent) (db, p) [req, req] =
           deliveries (webhook_part_000 constructEvent) (db, p) [req]"
proof -
  obtain out db' p' where a: "subscription_changed db p sub = (out, db', p')"
    by (cases "subscription_changed db p sub") auto
  obtain out0 db0 p0 where b: "subscription_updated_part_000 db p sub = (out0, db0, p0)"
    by (cases "subscription_updated_part_000 db p sub") auto
  have "deliveries (webhook constructEvent) (db, p) [req, req] =
           deliveries (webhook constructEvent) (db, p) [req]"
    using assms(1) a subscription_changed_twice[OF a]
    by (cases out) (simp_all add: webhook_def webhook_event_def)
  moreover have "deliveries (webhook_part_000 constructEvent) (db, p) [req, req] =
           deliveries (webhook_part_000 constructEvent) (db, p) [req]"
    using assms(1) b subscription_updated_part_000_twice[OF b]
    by (cases out0) (simp_all add: webhook_part_000_def webhook_event_part_000_def)
  ultimately show ?thesis by simp
qed

theorem subscription_updated_idempotent_witness:
  "truthy (linkage sample_processor
      (SubscriptionUpdated (sample_subscription\<lparr>sub_status := ''active'', sub_trial_end := None\<rparr>))) \<and>
   deliveries
     (webhook (sample_constructEvent
        [(''evt_1'', SubscriptionUpdated
            (sample_subscription\<lparr>sub_status := ''active'', sub_trial_end := None\<rparr>))]))
     (lapsed_db, sample_processor) [signed ''evt_1'', signed ''evt_1''] =
   (\<lparr>trial_not_null = False,
     rows = [''abc'' \<mapsto> \<lparr>plan = ''monthly'', status = ''active'', trial = None,
                             expiresAt = None, customerId = Some ''cus_1''\<rparr>]\<rparr>,
    sample_processor) \<and>
   deliveries
     (webhook_part_000 (sample_constructEvent
        [(''evt_1'', SubscriptionUpdated
            (sample_subscription\<lparr>sub_status := ''active'', sub_trial_end := None\<rparr>))]))
     (lapsed_db, sample_processor) [signed ''evt_1'', signed ''evt_1''] =
   (\<lparr>trial_not_null = False,
     rows = [''abc'' \<mapsto> \<lparr>plan = ''monthly'', status = ''active'', trial = None,
                             expiresAt = None, customerId = Some ''cus_0''\<rparr>]\<rparr>,
    sample_processor)"
proof -
  let ?ev = "SubscriptionUpdated (sample_subscription\<lparr>sub_status := ''active'', sub_trial_end := None\<rparr>)"
  let ?v = "sample_constructEvent [(''evt_1'', ?ev)]"
  have h1: "?v (signed ''evt_1'') = Inr ?ev"
    by (simp add: sample_constructEvent_def signed_def)
  have h2: "truthy (linkage sample_processor ?ev)"
    by (simp add: linkage_def optional_chain_def truthy_def sample_subscription_def)
  have once: "deliveries (webhook ?v) (lapsed_db, sample_processor) [signed ''evt_1''] =
      (\<lparr>trial_not_null = False,
        rows = [''abc'' \<mapsto> \<lparr>plan = ''monthly'', status = ''active'', trial = None,
                                expiresAt = None, customerId = Some ''cus_1''\<rparr>]\<rparr>,
       sample_processor)"
    by (simp add: sample_constructEvent_def signed_def webhook_def webhook_event_def subscription_changed_def store_defs
          value_defs sample_subscription_def lapsed_db_def)
  have once0: "deliveries (webhook_part_000 ?v) (lapsed_db, sample_processor) [signed ''evt_1''] =
      (\<lparr>trial_not_null = False,
        rows = [''abc'' \<mapsto> \<lparr>plan = ''monthly'', status = ''active'', trial = None,
                                expiresAt = None, customerId = Some ''cus_0''\<rparr>]\<rparr>,
       sample_processor)"
    by (simp add: sample_constructEvent_def signed_def webhook_part_000_def webhook_event_part_000_def
          subscription_updated_part_000_def store_defs value_defs sample_subscription_def
          lapsed_db_def)
  from subscription_updated_idempotent[of ?v, OF h1 h2, of lapsed_db] h2 once once0
  show ?thesis by simp
qed

section \<open>Checkout and creation in either order\<close>

lemma checkout_completed_state:
  assumes "constructEvent a = Inr (CheckoutSessionCompleted session)"
    and "optional_chain (ses_metadata session) ''deviceId'' = Some d" and "d \<noteq> []"
    and "ses_subscription session = Some k" and "k \<noteq> []" and "p k = Some s"
    and "optional_chain (ses_metadata session) ''plan'' = pl"
  shows "snd (webhook constructEvent db p a) =
     (stored (upsert True db (Some d) pl (sub_status s) (expires_ms (sub_trial_end s))
                (Some (sub_customer s))) db,
      p(k \<mapsto> s\<lparr>sub_metadata := merge_deviceId (sub_metadata s) (Some d)\<rparr>))"
  using assms
  by (cases "upsert True db (Some d) pl (sub_status s) (expires_ms (sub_trial_end s))
                (Some (sub_customer s))")
     (simp_all add: webhook_def webhook_event_def checkout_completed_def truthy_def retrieve_def
        update_metadata_def stored_def)

lemma checkout_completed_skipped:
  assumes "constructEvent a = Inr (CheckoutSessionCompleted session)"
    and "ses_subscription session = Some []"
  shows "snd (webhook constructEvent db p a) = (db, p)"
  using assms
  by (simp add: webhook_def webhook_event_def checkout_completed_def truthy_def Let_def)

lemma subscription_created_state:
  assumes "constructEvent b = Inr (SubscriptionCreated sub)"
    and "optional_chain (sub_metadata sub) ''deviceId'' = Some d" and "d \<noteq> []"
    and "sub_interval sub = Some i"
  shows "snd (webhook constructEvent db p b) =
     (stored (upsert True db (Some d) (Some (plan_of_interval i)) (sub_status sub)
                (expires_ms (sub_trial_end sub)) (Some (sub_customer sub))) db, p)"
  using assms
  by (cases "upsert True db (Some d) (Some (plan_of_interval i)) (sub_status sub)
                (expires_ms (sub_trial_end sub)) (Some (sub_customer sub))")
     (simp_all add: webhook_def webhook_event_def subscription_changed_def truthy_def stored_def)

lemma checkout_completed_part_000_state:
  assumes "constructEvent a = Inr (CheckoutSessionCompleted session)"
    and "optional_chain (ses_metadata session) ''deviceId'' = Some d"
    and "ses_subscription session = Some k" and "p k = Some s"
    and "optional_chain (ses_metadata session) ''plan'' = Some q"
  shows "snd (webhook_part_000 constructEvent db p a) =
     (stored (upsert True db (Some d) (Some q) (sub_status s) (expires_ms (sub_trial_end s))
                (ses_customer session)) db,
      p(k \<mapsto> s\<lparr>sub_metadata := merge_deviceId (sub_metadata s) (Some d)\<rparr>))"
  using assms
  by (cases "upsert True db (Some d) (Some q) (sub_status s) (expires_ms (sub_trial_end s))
                (ses_customer session)")
     (simp_all add: webhook_part_000_def webhook_event_part_000_def
        checkout_completed_part_000_def metadata_property retrieve_def update_metadata_def
        stored_def)

lemma subscription_created_part_000_state:
  assumes "constructEvent b = Inr (SubscriptionCreated sub)"
    and "optional_chain (sub_metadata sub) ''deviceId'' = Some d" and "d \<noteq> []"
    and "sub_interval sub = Some i"
  shows "snd (webhook_part_000 constructEvent db p b) =
     (stored (upsert False db (Some d) (Some (plan_of_interval i)) (sub_status sub)
                (expires_ms (sub_trial_end sub)) (Some (sub_customer sub))) db, p)"
  using assms
  by (cases "upsert False db (Some d) (Some (plan_of_interval i)) (sub_status sub)
                (expires_ms (sub_trial_end sub)) (Some (sub_customer sub))")
     (simp_all add: webhook_part_000_def webhook_event_part_000_def
        subscription_created_part_000_def metadata_property truthy_def stored_def)

text \<open>
  The two statements of the second source file, run with the same values, commute: the one
  that lists \<open>expiresAt\<close> in its conflict clause decides that column in either order.
\<close>

lemma upsert_commute:
  "stored (upsert False (stored (upsert True db (Some d) (Some q) st ex cu) db)
             (Some d) (Some q) st ex cu)
          (stored (upsert True db (Some d) (Some q) st ex cu) db) =
   stored (upsert True (stored (upsert False db (Some d) (Some q) st ex cu) db)
             (Some d) (Some q) st ex cu)
          (stored (upsert False db (Some d) (Some q) st ex cu) db)"
proof (cases "trial_not_null db")
  case True
  then show ?thesis by (simp add: upsert_def stored_def)
next
  case False
  then show ?thesis
    by (cases "rows db d") (simp_all add: upsert_def stored_def)
qed

text \<open>
  C2. Take a verified \<^verbatim>\<open>checkout.session.completed\<close> event and a verified
  \<^verbatim>\<open>customer.subscription.created\<close> event for the same subscription: both are linked to the
  device \<open>d\<close>; the session names the subscription \<open>k\<close>, which the processor knows as
  \<open>s\<close>; the session's plan is the one derived from the event's billing interval; \<open>s\<close> and
  the event's subscription agree on status, trial end and customer, and the session names
  that customer. Then delivering the two in either order ends in the same store (and the
  same processor state), from every state and in both webhooks.
\<close>

theorem checkout_created_either_order:
  assumes "constructEvent a = Inr (CheckoutSessionCompleted session)"
    and "constructEvent b = Inr (SubscriptionCreated sub)"
    and "linkage p (CheckoutSessionCompleted session) = Some d"
    and "linkage p (SubscriptionCreated sub) = Some d"
    and "d \<noteq> []"
    and "ses_subscription session = Some k" and "p k = Some s"
    and "sub_interval sub = Some i"
    and "optional_chain (ses_metadata session) ''plan'' = Some (plan_of_interval i)"
    and "sub_status s = sub_status sub"
    and "sub_trial_end s = sub_trial_end sub"
    and "sub_customer s = sub_customer sub"
    and "ses_customer session = Some (sub_customer sub)"
  shows "deliveries (webhook constructEvent) (db, p) [a, b] =
           deliveries (webhook constructEvent) (db, p) [b, a] \<and>
         deliveries (webhook_part_000 constructEvent) (db, p) [a, b] =
           deliveries (webhook_part_000 constructEvent) (db, p) [b, a]"
proof
  have ld: "optional_chain (ses_metadata session) ''deviceId'' = Some d"
    and ls: "optional_chain (sub_metadata sub) ''deviceId'' = Some d"
    using assms(3,4) by (simp_all add: linkage_def)
  note cr = subscription_created_state[where constructEvent=constructEvent and b=b,
      OF assms(2) ls assms(5,8)]
  show "deliveries (webhook constructEvent) (db, p) [a, b] =
           deliveries (webhook constructEvent) (db, p) [b, a]"
  proof (cases "k = []")
    case True
    with assms(6) have "ses_subscription session = Some []" by simp
    note sk = checkout_completed_skipped[where constructEvent=constructEvent and a=a,
        OF assms(1) this]
    show ?thesis by (simp add: sk cr)
  next
    case False
    note ck = checkout_completed_state[where constructEvent=constructEvent and a=a and p=p,
        OF assms(1) ld assms(5,6) False assms(7,9)]
    show ?thesis by (simp add: ck cr assms(10,11,12))
  qed
  note ck0 = checkout_completed_part_000_state[where constructEvent=constructEvent and a=a
      and p=p, OF assms(1) ld assms(6,7,9)]
  note cr0 = subscription_created_part_000_state[where constructEvent=constructEvent and b=b,
      OF assms(2) ls assms(5,8)]
  show "deliveries (webhook_part_000 constructEvent) (db, p) [a, b] =
           deliveries (webhook_part_000 constructEvent) (db, p) [b, a]"
    by (simp add: ck0 cr0 assms(10,11,12,13) upsert_commute)
qed

theorem checkout_created_either_order_witness:
  "linkage sample_processor (CheckoutSessionCompleted sample_session) = Some ''abc'' \<and>
   linkage sample_processor (SubscriptionCreated sample_subscription) = Some ''abc'' \<and>
   optional_chain (ses_metadata sample_session) ''plan'' = Some (plan_of_interval ''month'') \<and>
   deliveries
     (webhook (sample_constructEvent
        [(''evt_1'', CheckoutSessionCompleted sample_session),
         (''evt_2'', SubscriptionCreated sample_subscription)]))
     (lapsed_db, sample_processor) [signed ''evt_2'', signed ''evt_1''] =
   (\<lparr>trial_not_null = False,
     rows = [''abc'' \<mapsto> \<lparr>plan = ''monthly'', status = ''trialing'', trial = None,
                             expiresAt = Some 1700000000000, customerId = Some ''cus_1''\<rparr>]\<rparr>,
    sample_processor) \<and>
   deliveries
     (webhook_part_000 (sample_constructEvent
        [(''evt_1'', CheckoutSessionCompleted sample_session),
         (''evt_2'', SubscriptionCreated sample_subscription)]))
     (lapsed_db, sample_processor) [signed ''evt_2'', signed ''evt_1''] =
   (\<lparr>trial_not_null = False,
     rows = [''abc'' \<mapsto> \<lparr>plan = ''monthly'', status = ''trialing'', trial = None,
                             expiresAt = Some 1700000000000, customerId = Some ''cus_1''\<rparr>]\<rparr>,
    sample_processor)"
proof -
  let ?v = "sample_constructEvent
        [(''evt_1'', CheckoutSessionCompleted sample_session),
         (''evt_2'', SubscriptionCreated sample_subscription)]"
  have h1: "?v (signed ''evt_1'') = Inr (CheckoutSessionCompleted sample_session)"
    and h2: "?v (signed ''evt_2'') = Inr (SubscriptionCreated sample_subscription)"
    by (simp_all add: sample_constructEvent_def signed_def)
  have h3: "linkage sample_processor (CheckoutSessionCompleted sample_session) = Some ''abc''"
    and h4: "linkage sample_processor (SubscriptionCreated sample_subscription) = Some ''abc''"
    by (simp_all add: linkage_def optional_chain_def sample_session_def sample_subscription_def)
  have h5: "''abc'' \<noteq> []" by simp
  have h6: "ses_subscription sample_session = Some ''sub_1''"
    and h7: "sample_processor ''sub_1'' = Some sample_subscription"
    and h8: "sub_interval sample_subscription = Some ''month''"
    and h9: "optional_chain (ses_metadata sample_session) ''plan'' =
        Some (plan_of_interval ''month'')"
    and h13: "ses_customer sample_session = Some (sub_customer sample_subscription)"
    by (simp_all add: sample_session_def sample_processor_def sample_subscription_def
          optional_chain_def plan_of_interval_def)
  have ab: "deliveries (webhook ?v) (lapsed_db, sample_processor)
        [signed ''evt_1'', signed ''evt_2''] =
      (\<lparr>trial_not_null = False,
        rows = [''abc'' \<mapsto> \<lparr>plan = ''monthly'', status = ''trialing'', trial = None,
                                expiresAt = Some 1700000000000, customerId = Some ''cus_1''\<rparr>]\<rparr>,
       sample_processor)"
    by (simp add: sample_defs server_defs store_defs value_defs)
  have ab0: "deliveries (webhook_part_000 ?v) (lapsed_db, sample_processor)
        [signed ''evt_1'', signed ''evt_2''] =
      (\<lparr>trial_not_null = False,
        rows = [''abc'' \<mapsto> \<lparr>plan = ''monthly'', status = ''trialing'', trial = None,
                                expiresAt = Some 1700000000000, customerId = Some ''cus_1''\<rparr>]\<rparr>,
       sample_processor)"
    by (simp add: sample_defs part_000_defs store_defs value_defs)
  from checkout_created_either_order[where constructEvent = ?v and p = sample_processor
      and db = lapsed_db, OF h1 h2 h3 h4 h5 h6 h7 h8 h9 refl refl refl h13] ab ab0 h3 h4 h9
  show ?thesis by simp
qed

section \<open>The customer of a row\<close>

lemma upsert_has_customer:
  "upsert se db dv pl st ex (Some c) = Inr db' \<Longrightarrow> has_customer db d \<Longrightarrow> has_customer db' d"
  by (auto simp: upsert_def has_customer_def split: option.splits if_splits)

lemma update_where_has_customer:
  "(\<And>r. customerId (f r) = customerId r) \<Longrightarrow> update_where f db dv = Inr db'
     \<Longrightarrow> has_customer db d \<Longrightarrow> has_customer db' d"
  by (auto simp: update_where_def has_customer_def split: option.splits if_splits)

lemma webhook_event_has_customer:
  "webhook_event db p ev = (out, db', p') \<Longrightarrow> has_customer db d \<Longrightarrow> has_customer db' d"
  by (cases ev)
     (auto simp: webhook_event_def checkout_completed_def subscription_changed_def
        payment_failed_def subscription_deleted_def Let_def set_inactive_def set_free_def
        split: if_splits option.splits sum.splits
        dest: upsert_has_customer update_where_has_customer[rotated])

lemma webhook_has_customer:
  "has_customer db d \<Longrightarrow> has_customer (fst (snd (webhook constructEvent db p req))) d"
  by (auto simp: webhook_def split: sum.splits prod.splits outcome.splits
        dest: webhook_event_has_customer)

text \<open>
  C9. In \<^verbatim>\<open>server.js\<close> a row whose \<open>customerId\<close> is not \<^verbatim>\<open>NULL\<close> keeps a \<open>customerId\<close>
  that is not \<^verbatim>\<open>NULL\<close> through every sequence of deliveries to the webhook: the two
  \<^verbatim>\<open>UPDATE\<close> statements do not write the column, and the two upserts write the
  subscription's customer, which the processor's protocol makes a string.
\<close>

theorem customerId_sticky:
  "has_customer db d \<Longrightarrow> has_customer (fst (deliveries (webhook constructEvent) (db, p) reqs)) d"
proof (induction reqs arbitrary: db p)
  case Nil
  then show ?case by simp
next
  case (Cons req reqs)
  obtain r db' p' where w: "webhook constructEvent db p req = (r, db', p')"
    by (cases "webhook constructEvent db p req") auto
  have "has_customer db' d"
    using webhook_has_customer[OF Cons.prems, of constructEvent p req] w by simp
  from Cons.IH[OF this] show ?case using w by simp
qed

theorem customerId_sticky_witness:
  "has_customer lapsed_db ''abc'' \<and>
   has_customer
     (fst (deliveries
        (webhook (sample_constructEvent
           [(''evt_1'', CheckoutSessionCompleted sample_session),
            (''evt_2'', SubscriptionUpdated sample_subscription),
            (''evt_3'', InvoicePaymentFailed \<lparr>inv_subscription = Some ''sub_1''\<rparr>),
            (''evt_4'', SubscriptionDeleted sample_subscription)]))
        (lapsed_db, sample_processor)
        [signed ''evt_4'', signed ''evt_1'', signed ''evt_2'', signed ''evt_3'', signed ''evt_4'']))
     ''abc'' \<and>
   deliveries
     (webhook (sample_constructEvent
        [(''evt_1'', CheckoutSessionCompleted sample_session),
         (''evt_2'', SubscriptionUpdated sample_subscription),
         (''evt_3'', InvoicePaymentFailed \<lparr>inv_subscription = Some ''sub_1''\<rparr>),
         (''evt_4'', SubscriptionDeleted sample_subscription)]))
     (lapsed_db, sample_processor)
     [signed ''evt_4'', signed ''evt_1'', signed ''evt_2'', signed ''evt_3'', signed ''evt_4''] =
   (\<lparr>trial_not_null = False,
     rows = [''abc'' \<mapsto> \<lparr>plan = ''free'', status = ''inactive'', trial = None,
                             expiresAt = None, customerId = Some ''cus_1''\<rparr>]\<rparr>,
    sample_processor)"
proof -
  have h: "has_customer lapsed_db ''abc''"
    by (simp add: has_customer_def lapsed_db_def)
  have run: "deliveries
     (webhook (sample_constructEvent
        [(''evt_1'', CheckoutSessionCompleted sample_session),
         (''evt_2'', SubscriptionUpdated sample_subscription),
         (''evt_3'', InvoicePaymentFailed \<lparr>inv_subscription = Some ''sub_1''\<rparr>),
         (''evt_4'', SubscriptionDeleted sample_subscription)]))
     (lapsed_db, sample_processor)
     [signed ''evt_4'', signed ''evt_1'', signed ''evt_2'', signed ''evt_3'', signed ''evt_4''] =
   (\<lparr>trial_not_null = False,
     rows = [''abc'' \<mapsto> \<lparr>plan = ''free'', status = ''inactive'', trial = None,
                             expiresAt = None, customerId = Some ''cus_1''\<rparr>]\<rparr>,
    sample_processor)"
    by (simp add: sample_defs server_defs store_defs value_defs)
  show ?thesis by (rule conjI[OF h conjI[OF customerId_sticky[OF h] run]])
qed

section \<open>Faults after verification\<close>

text \<open>
  In \<^verbatim>\<open>server.js\<close> every verified event is acknowledged, whatever the lookups and the
  statements throw.
\<close>

lemma webhook_acknowledges:
  assumes "constructEvent req = Inr ev"
  shows "fst (webhook constructEvent db p req) = received"
  using assms
  by (cases ev)
     (auto simp: server_defs Let_def
        split: sum.splits if_splits prod.splits outcome.splits option.splits)

text \<open>
  C7. After verification no failure may escape the webhook, which always answers
  \<^verbatim>\<open>{ received: true }\<close>. The webhook of the second source file does not: for a verified
  \<^verbatim>\<open>checkout.session.completed\<close> event whose subscription the processor cannot return, the
  \<^verbatim>\<open>await\<close> of the lookup rejects, nothing catches it, and no response is written.
\<close>

theorem webhook_part_000_lookup_failure_unhandled:
  "webhook_part_000
     (sample_constructEvent [(''evt_1'', CheckoutSessionCompleted sample_session)])
     sample_db Map.empty (signed ''evt_1'') = (Unhandled StripeError, sample_db, Map.empty) \<and>
   webhook
     (sample_constructEvent [(''evt_1'', CheckoutSessionCompleted sample_session)])
     sample_db Map.empty (signed ''evt_1'') =
     (Json 200 [(''received'', JBool True)], sample_db, Map.empty)"
  by (simp add: sample_defs server_defs part_000_defs store_defs value_defs)

text \<open>
  The same happens there when the table is the one that \<^verbatim>\<open>db.js\<close> creates: the upsert names
  no value for \<open>trial\<close>, SQLite refuses it, and the error escapes.
\<close>

lemma webhook_part_000_store_failure_unhandled:
  "webhook_part_000
     (sample_constructEvent [(''evt_1'', CheckoutSessionCompleted sample_session)])
     sample_db sample_processor (signed ''evt_1'') =
   (Unhandled SqliteError, sample_db, sample_processor)"
  by (simp add: sample_defs part_000_defs store_defs value_defs)

section \<open>The status query\<close>

text \<open>In \<^verbatim>\<open>server.js\<close> a device without a row gets the default triple.\<close>

lemma subscription_status_default:
  assumes "rows db deviceId = None"
  shows "subscription_status db deviceId =
     Json 200 [(''plan'', JStr ''free''), (''status'', JStr ''inactive''), (''expiresAt'', JNull)]"
  using assms by (simp add: subscription_status_def select_row_def)

text \<open>
  C8. For a device without a row the status query answers exactly
  \<^verbatim>\<open>{plan: "free", status: "inactive", expiresAt: null}\<close>. The query of the second source file
  does not: its default has a key \<open>trial\<close> and no key \<open>expiresAt\<close>, while for a device with
  a row it answers \<open>plan\<close>, \<open>status\<close> and \<open>expiresAt\<close>.
\<close>

theorem subscription_status_part_000_default:
  "rows empty_db ''abc'' = None \<and>
   subscription_status_part_000 empty_db ''abc'' =
     Json 200 [(''plan'', JStr ''free''), (''status'', JStr ''inactive''), (''trial'', JBool False)] \<and>
   subscription_status_part_000 empty_db ''abc'' \<noteq>
     Json 200 [(''plan'', JStr ''free''), (''status'', JStr ''inactive''), (''expiresAt'', JNull)] \<and>
   subscription_status empty_db ''abc'' =
     Json 200 [(''plan'', JStr ''free''), (''status'', JStr ''inactive''), (''expiresAt'', JNull)]"
  by (simp add: empty_db_def subscription_status_part_000_def subscription_status_def
        select_row_def)

end
